theory Spec2Isabelle
  imports Complex_Main
begin

section \<open>Values, errors and observable effects\<close>

text \<open>
  Samples are NumPy float64 values in the source; they are idealised here as real numbers,
  so rounding, overflow and NaN are outside the model. Python integers are \<open>int\<close>,
  array lengths are \<open>nat\<close>. Every \<open>raise\<close> of the source, and every exception
  raised by a NumPy/SciPy primitive, is a value \<open>Inl e\<close>.
\<close>

datatype error =
    NotImplementedError
  | ValueError
  | TypeError
  | IndexError
  | ZeroDivisionError
  | ImportError
  | OSError
  | PyException

text \<open>Python's \<open>int(x)\<close> on a float: truncation toward zero.\<close>

definition py_int :: "real \<Rightarrow> int" where
  "py_int x = (if 0 \<le> x then \<lfloor>x\<rfloor> else \<lceil>x\<rceil>)"

subsection \<open>NumPy primitives on one-dimensional arrays\<close>

text \<open>\<open>np.linspace(start, stop, num)\<close> with the default \<open>endpoint=True\<close>.\<close>

definition np_linspace :: "real \<Rightarrow> real \<Rightarrow> int \<Rightarrow> error + real list" where
  "np_linspace start stop num =
     (if num < 0 then Inl ValueError
      else if num = 1 then Inr [start]
      else Inr (map (\<lambda>i. start + real i * ((stop - start) / real_of_int (num - 1)))
                  [0..<nat num]))"

text \<open>\<open>np.arange(n)\<close> as float positions.\<close>

definition np_arange :: "nat \<Rightarrow> real list" where
  "np_arange n = map real [0..<n]"

text \<open>\<open>x.mean()\<close>; the mean of an empty array is NaN in NumPy and is never used as a
  number by the callers modelled here.\<close>

definition np_mean :: "real list \<Rightarrow> real" where
  "np_mean xs = sum_list xs / real (length xs)"

definition demean :: "real list \<Rightarrow> real list" where
  "demean xs = map (\<lambda>x. x - np_mean xs) xs"

text \<open>
  Integer-array indexing \<open>a[idx]\<close>: a negative index counts from the end, an index out of
  range raises \<open>IndexError\<close>.
\<close>

definition np_index :: "'a list \<Rightarrow> int \<Rightarrow> error + 'a" where
  "np_index xs i =
     (if 0 \<le> i \<and> i < int (length xs) then Inr (xs ! nat i)
      else if - int (length xs) \<le> i \<and> i < 0 then Inr (xs ! nat (int (length xs) + i))
      else Inl IndexError)"

fun np_take :: "'a list \<Rightarrow> int list \<Rightarrow> error + 'a list" where
  "np_take xs [] = Inr []"
| "np_take xs (i # is) =
     (case np_index xs i of
        Inl e \<Rightarrow> Inl e
      | Inr v \<Rightarrow> (case np_take xs is of Inl e \<Rightarrow> Inl e | Inr vs \<Rightarrow> Inr (v # vs)))"

subsection \<open>\<open>scipy.interpolate.interp1d\<close>, linear, \<open>fill_value='extrapolate'\<close>\<close>

text \<open>
  \<open>np.searchsorted(x, v)\<close> (side \<open>left\<close>) on a sorted array: the number of entries
  strictly below \<open>v\<close>.
\<close>

definition searchsorted :: "real list \<Rightarrow> real \<Rightarrow> nat" where
  "searchsorted xs v = length (takeWhile (\<lambda>x. x < v) xs)"

text \<open>
  The linear evaluation of \<open>interp1d\<close>: the bracketing index is clipped to
  \<open>[1, len(x) - 1]\<close>, so that points outside the support are extrapolated along the first
  or the last segment.
\<close>

definition call_linear :: "real list \<Rightarrow> real list \<Rightarrow> real \<Rightarrow> real" where
  "call_linear xs ys x_new =
     (let i = min (max (searchsorted xs x_new) 1) (length xs - 1);
          lo = i - 1; hi = i;
          slope = (ys ! hi - ys ! lo) / (xs ! hi - xs ! lo)
      in slope * (x_new - xs ! lo) + ys ! lo)"

text \<open>
  \<open>interp1d(x, y, fill_value='extrapolate')\<close> followed by a call on \<open>x_new\<close>. The
  constructor sorts the support by \<open>x\<close> (\<open>assume_sorted=False\<close>) and rejects supports of
  unequal length. A support with fewer than two points cannot define a line: depending on
  the SciPy version the constructor raises \<open>ValueError\<close> or the evaluation yields NaN
  only; the model raises.
\<close>

definition interp1d :: "real list \<Rightarrow> real list \<Rightarrow> real list \<Rightarrow> error + real list" where
  "interp1d x y x_new =
     (if length x \<noteq> length y then Inl ValueError
      else if length x < 2 then Inl ValueError
      else (let s = sort_key fst (zip x y)
            in Inr (map (call_linear (map fst s) (map snd s)) x_new)))"

section \<open>Module \<open>signal\<close>\<close>

subsection \<open>\<open>endtidal_interpolation\<close>\<close>

text \<open>\<open>np.sort(np.unique(peaks))\<close>: the distinct peak indices in ascending order.\<close>

definition np_unique :: "int list \<Rightarrow> int list" where
  "np_unique ps = sort (remdups ps)"

definition endtidal_interpolation :: "real list \<Rightarrow> int list \<Rightarrow> error + real list" where
  "endtidal_interpolation signal peaks =
     (let peaks' = sort (np_unique peaks);
          nx = np_arange (length signal)
      in case np_take signal peaks' of
           Inl e \<Rightarrow> Inl e
         | Inr vals \<Rightarrow> interp1d (map real_of_int peaks') vals nx)"

subsection \<open>\<open>resample_signal_samples\<close> and \<open>resample_signal_freqs\<close>\<close>

definition resample_signal_samples :: "real list \<Rightarrow> int \<Rightarrow> error + real list" where
  "resample_signal_samples ts samples =
     (let len_tp = length ts
      in case np_linspace 0 (real len_tp - 1) samples of
           Inl e \<Rightarrow> Inl e
         | Inr regr_t \<Rightarrow>
             (case np_linspace 0 (real len_tp - 1) (int len_tp) of
                Inl e \<Rightarrow> Inl e
              | Inr time_t \<Rightarrow> interp1d time_t ts regr_t))"

text \<open>
  \<open>(len_tp - 1) / freq1\<close> is a Python division: a zero \<open>freq1\<close> raises
  \<open>ZeroDivisionError\<close>.
\<close>

definition resample_signal_freqs :: "real list \<Rightarrow> real \<Rightarrow> real \<Rightarrow> error + real list" where
  "resample_signal_freqs ts freq1 freq2 =
     (let len_tp = length ts
      in if freq1 = 0 then Inl ZeroDivisionError
         else
           (let len_s = (real len_tp - 1) / freq1
            in case np_linspace 0 len_s (py_int (len_s * freq2) + 1) of
                 Inl e \<Rightarrow> Inl e
               | Inr regr_t \<Rightarrow>
                   (case np_linspace 0 len_s (int len_tp) of
                      Inl e \<Rightarrow> Inl e
                    | Inr time_t \<Rightarrow> interp1d time_t ts regr_t)))"

subsection \<open>\<open>create_hrf\<close>\<close>

text \<open>\<open>np.finfo(float).eps\<close>.\<close>

definition float_eps :: real where
  "float_eps = 1 / 2 ^ 52"

text \<open>
  \<open>scipy.stats.gamma.pdf(x, a, scale=1)\<close> for the two integral shapes the source uses
  (\<open>a1 = 6\<close>, \<open>a2 = 16\<close>, where the Gamma function is a factorial); the density is zero
  left of the support.
\<close>

definition gamma_pdf :: "real \<Rightarrow> nat \<Rightarrow> real" where
  "gamma_pdf x a = (if x < 0 then 0 else x ^ (a - 1) * exp (- x) / fact (a - 1))"

text \<open>\<open>np.arange(0, stop, 1)\<close> for a float \<open>stop\<close>, and \<open>np.arange(0, n, 1)\<close> for an
  integer \<open>n\<close>.\<close>

definition np_arange_stop :: "real \<Rightarrow> real list" where
  "np_arange_stop stop = map real [0..<nat \<lceil>stop\<rceil>]"

definition np_arange_int :: "int \<Rightarrow> int list" where
  "np_arange_int n = map int [0..<nat n]"

text \<open>Python's built-in \<open>min\<close> and \<open>max\<close> over a sequence: \<open>ValueError\<close> when it is
  empty.\<close>

fun py_min :: "real list \<Rightarrow> error + real" where
  "py_min [] = Inl ValueError"
| "py_min (x # xs) = Inr (fold min xs x)"

fun py_max :: "real list \<Rightarrow> error + real" where
  "py_max [] = Inl ValueError"
| "py_max (x # xs) = Inr (fold max xs x)"

definition create_hrf :: "real \<Rightarrow> error + real list" where
  "create_hrf freq =
     (if freq = 0 then Inl ZeroDivisionError
      else
        (let RT = 1 / freq;
             fMRI_T = 16;
             dt = RT / fMRI_T;
             u = np_arange_stop (32 / dt + 1);
             hrf = map (\<lambda>u. (gamma_pdf (u * dt) 6 - gamma_pdf (u * dt) 16 / 6) / dt) u;
             time_axis = map (\<lambda>k. k * 16) (np_arange_int (py_int (32 / RT + 1)))
         in case np_take hrf time_axis of
              Inl e \<Rightarrow> Inl e
            | Inr hrf \<Rightarrow>
                (case py_min (filter (\<lambda>h. h > 10 * float_eps) hrf) of
                   Inl e \<Rightarrow> Inl e
                 | Inr m \<Rightarrow>
                     (let min_hrf = m / 10 ^ 9;
                          min_hrf = (if min_hrf < 10 * float_eps then 10 * float_eps
                                     else min_hrf);
                          hrf = map (\<lambda>h. if h = 0 then min_hrf else h) hrf
                      in case py_max hrf of
                           Inl e \<Rightarrow> Inl e
                         | Inr mx \<Rightarrow> Inr (map (\<lambda>h. h / mx) hrf)))))"

subsection \<open>Arrays with a shape\<close>

text \<open>
  \<open>convolve_signal\<close> and \<open>compute_petco2hrf\<close> look at the number of dimensions of their
  input, so their input carries its shape; the samples are kept flat, in row-major order.
\<close>

datatype ndarray = NDArray (shape: "nat list") (flat: "real list")

definition ndim :: "ndarray \<Rightarrow> nat" where
  "ndim a = length (shape a)"

text \<open>\<open>a.squeeze()\<close>: every axis of length one is removed.\<close>

definition squeeze :: "ndarray \<Rightarrow> ndarray" where
  "squeeze a = NDArray (filter (\<lambda>d. d \<noteq> 1) (shape a)) (flat a)"

definition array1d :: "real list \<Rightarrow> ndarray" where
  "array1d xs = NDArray [length xs] xs"

subsection \<open>\<open>np.convolve\<close> and \<open>np.interp\<close>\<close>

datatype conv_mode = Full | Valid | Same

definition conv_full :: "real list \<Rightarrow> real list \<Rightarrow> real list" where
  "conv_full a v =
     map (\<lambda>k. \<Sum>j\<leftarrow>[0..<length a].
                 if j \<le> k \<and> k - j < length v then a ! j * v ! (k - j) else 0)
         [0..<length a + length v - 1]"

text \<open>
  \<open>np.convolve(a, v, mode)\<close>: both operands are made at least one-dimensional, an operand
  with more than one dimension and an empty operand raise \<open>ValueError\<close>; \<open>same\<close> and
  \<open>valid\<close> are the centred parts of the full convolution.
\<close>

definition np_convolve :: "ndarray \<Rightarrow> real list \<Rightarrow> conv_mode \<Rightarrow> error + real list" where
  "np_convolve a v mode =
     (if ndim a > 1 then Inl ValueError
      else if flat a = [] \<or> v = [] then Inl ValueError
      else
        (let full = conv_full (flat a) v;
             n = max (length (flat a)) (length v);
             m = min (length (flat a)) (length v)
         in case mode of
              Full \<Rightarrow> Inr full
            | Same \<Rightarrow> Inr (take n (drop ((m - 1) div 2) full))
            | Valid \<Rightarrow> Inr (take (n - m + 1) (drop (m - 1) full))))"

text \<open>\<open>np.interp(x, (x0, x1), (f0, f1))\<close> on a two-point table.\<close>

definition np_interp2 :: "real \<Rightarrow> real \<times> real \<Rightarrow> real \<times> real \<Rightarrow> real" where
  "np_interp2 x xp fp =
     (case (xp, fp) of
        ((x0, x1), (f0, f1)) \<Rightarrow>
          if x > x1 then f1
          else if x < x0 then f0
          else if x = x1 then f1
          else f0 + (f1 - f0) / (x1 - x0) * (x - x0))"

subsection \<open>Effects\<close>

text \<open>
  Log records at level INFO and above, diagnostic plots, files written, directories
  created and lines printed are recorded as a list of events, in the order of the source.
  The module loggers are set to level INFO, so \<open>LGR.debug\<close> emits nothing. A message that
  the source formats with values is recorded by its fixed text.
\<close>

datatype level = INFO | WARNING

datatype event =
    Log level string
  | Plot string
  | SaveTxt string
  | MakeDirs string
  | Print string int

subsection \<open>\<open>convolve_signal\<close>\<close>

text \<open>
  The kernel specification as Python passes it: \<open>None\<close>, a string, a list, an array, or a
  \<open>Path\<close> object. A list or array is numeric with its values, or not numeric with its
  number of entries.
\<close>

datatype kernel_values = Numeric "real list" | NonNumeric nat

datatype response_function =
    RNone
  | RStr string
  | RList kernel_values
  | RArray kernel_values
  | RPath string

text \<open>
  What \<open>convolve_signal\<close> consumes from its surroundings: the file system
  (\<open>Path.exists\<close>), \<open>load_array\<close> of module \<open>io\<close>, and the optional package
  \<open>phys2denoise\<close>, whose response functions take the sampling interval (\<open>None\<close> when the
  package is not installed).
\<close>

record env =
  path_exists :: "string \<Rightarrow> bool"
  load_array :: "string \<Rightarrow> error + real list"
  phys2denoise :: "(string \<Rightarrow> real \<Rightarrow> real list) option"

text \<open>\<open>str.lower()\<close> on ASCII letters.\<close>

definition lower_char :: "char \<Rightarrow> char" where
  "lower_char c =
     (case map_of (zip ''ABCDEFGHIJKLMNOPQRSTUVWXYZ'' ''abcdefghijklmnopqrstuvwxyz'') c of
        Some d \<Rightarrow> d
      | None \<Rightarrow> c)"

definition lower :: "string \<Rightarrow> string" where
  "lower s = map lower_char s"

text \<open>The first step of \<open>convolve_signal\<close>: a string that names an existing file becomes a
  path, any other string is lower-cased and \<open>none\<close> becomes \<open>None\<close>.\<close>

definition normalise_response :: "env \<Rightarrow> response_function \<Rightarrow> response_function" where
  "normalise_response E rf =
     (case rf of
        RStr s \<Rightarrow>
          if path_exists E s then RPath s
          else (if lower s = ''none'' then RNone else RStr (lower s))
      | _ \<Rightarrow> rf)"

text \<open>The external kernels \<open>rrf\<close>, \<open>crf\<close> and \<open>icrf\<close>, called with \<open>1 / freq\<close>.\<close>

definition external_kernel :: "env \<Rightarrow> string \<Rightarrow> real \<Rightarrow> error + real list" where
  "external_kernel E name freq =
     (case phys2denoise E of
        None \<Rightarrow> Inl ImportError
      | Some provider \<Rightarrow>
          if freq = 0 then Inl ZeroDivisionError else Inr (provider name (1 / freq)))"

text \<open>The kernel resolution of \<open>convolve_signal\<close>, in the order of its \<open>if\<close>/\<open>elif\<close>
  chain; \<open>None\<close> stands for the early return of the unconvolved signal.\<close>

definition resolve_kernel :: "env \<Rightarrow> response_function \<Rightarrow> real \<Rightarrow> error + real list option" where
  "resolve_kernel E rf freq =
     (case rf of
        RList (Numeric xs) \<Rightarrow> Inr (Some xs)
      | RList (NonNumeric n) \<Rightarrow> Inl ValueError
      | RArray (Numeric xs) \<Rightarrow> Inr (Some xs)
      | RArray (NonNumeric n) \<Rightarrow> Inl ValueError
      | RNone \<Rightarrow> Inr None
      | RStr s \<Rightarrow>
          if s = ''hrf'' then map_sum id Some (create_hrf freq)
          else if s = ''rrf'' then map_sum id Some (external_kernel E ''rrf'' freq)
          else if s = ''crf'' then map_sum id Some (external_kernel E ''crf'' freq)
          else if s = ''icrf'' then map_sum id Some (external_kernel E ''icrf'' freq)
          else Inl NotImplementedError
      | RPath p \<Rightarrow>
          if \<not> path_exists E p then Inl OSError
          else map_sum id Some (load_array E p))"

definition convolve_signal ::
  "env \<Rightarrow> ndarray \<Rightarrow> real \<Rightarrow> response_function \<Rightarrow> conv_mode \<Rightarrow> (error + ndarray) \<times> event list"
where
  "convolve_signal E signal freq response_function mode =
     (let signal = squeeze signal
      in if ndim signal > 2 then (Inl NotImplementedError, [])
         else
           (case resolve_kernel E (normalise_response E response_function) freq of
              Inl e \<Rightarrow> (Inl e, [])
            | Inr None \<Rightarrow>
                (Inr signal, [Log INFO ''Skipping convolution with response function''])
            | Inr (Some convolving_function) \<Rightarrow>
                (case np_convolve signal convolving_function mode of
                   Inl e \<Rightarrow> (Inl e, [])
                 | Inr convolved_signal \<Rightarrow>
                     (case (py_min convolved_signal, py_max convolved_signal,
                            py_min (flat signal), py_max (flat signal)) of
                        (Inr cmin, Inr cmax, Inr smin, Inr smax) \<Rightarrow>
                          (Inr (array1d (map (\<lambda>x. np_interp2 x (cmin, cmax) (smin, smax))
                                           convolved_signal)), [])
                      | _ \<Rightarrow> (Inl ValueError, [])))))"

section \<open>Module \<open>regressors\<close>\<close>

subsection \<open>Python slicing and path handling\<close>

text \<open>
  \<open>xs[start:stop]\<close> and \<open>xs[start:]\<close>: a negative bound counts from the end, and bounds are
  clamped to the sequence.
\<close>

definition slice_bound :: "nat \<Rightarrow> int \<Rightarrow> nat" where
  "slice_bound n i = (if i < 0 then nat (int n + i) else min n (nat i))"

definition py_slice :: "'a list \<Rightarrow> int \<Rightarrow> int \<Rightarrow> 'a list" where
  "py_slice xs start stop =
     (let s = slice_bound (length xs) start; e = slice_bound (length xs) stop
      in take (e - s) (drop s xs))"

definition py_slice_from :: "'a list \<Rightarrow> int \<Rightarrow> 'a list" where
  "py_slice_from xs start = drop (slice_bound (length xs) start) xs"

text \<open>
  \<open>xs[start:stop:-1]\<close> with both bounds given: a negative bound counts from the end, then
  the bounds are clamped to \<open>[-1, len - 1]\<close>; the slice runs from \<open>start\<close> down to
  \<open>stop\<close>, \<open>stop\<close> excluded.
\<close>

definition slice_bound_rev :: "nat \<Rightarrow> int \<Rightarrow> int" where
  "slice_bound_rev n i = (if i < 0 then max (- 1) (int n + i) else min (int n - 1) i)"

definition py_slice_rev :: "'a list \<Rightarrow> int \<Rightarrow> int \<Rightarrow> 'a list" where
  "py_slice_rev xs start stop =
     (let s = slice_bound_rev (length xs) start; e = slice_bound_rev (length xs) stop
      in map (\<lambda>k. xs ! nat (s - int k)) [0..<nat (s - e)])"

text \<open>\<open>os.path.split\<close> and \<open>os.path.join\<close> (POSIX).\<close>

definition os_path_split :: "string \<Rightarrow> string \<times> string" where
  "os_path_split p =
     (let tail = rev (takeWhile (\<lambda>c. c \<noteq> CHR ''/'') (rev p));
          head = rev (dropWhile (\<lambda>c. c \<noteq> CHR ''/'') (rev p))
      in (if head \<noteq> [] \<and> (\<exists>c\<in>set head. c \<noteq> CHR ''/'')
          then rev (dropWhile (\<lambda>c. c = CHR ''/'') (rev head)) else head, tail))"

definition os_path_join :: "string \<Rightarrow> string \<Rightarrow> string" where
  "os_path_join a b =
     (if b \<noteq> [] \<and> hd b = CHR ''/'' then b
      else if a = [] \<or> last a = CHR ''/'' then a @ b
      else a @ ''/'' @ b)"

subsection \<open>\<open>compute_petco2hrf\<close>\<close>

text \<open>The default value of the parameter \<open>response_function\<close> in the signature of
  \<open>compute_petco2hrf\<close>.\<close>

definition default_response_function :: response_function where
  "default_response_function = RStr ''hfr''"

text \<open>
  The test \<open>response_function not in [None, 'none', 'None', 'NONE']\<close>. Comparing an array
  of more than one entry with the members of the list has no truth value and raises
  \<open>ValueError\<close>.
\<close>

definition skips_convolution :: "response_function \<Rightarrow> error + bool" where
  "skips_convolution rf =
     (case rf of
        RNone \<Rightarrow> Inr True
      | RStr s \<Rightarrow> Inr (s = ''none'' \<or> s = ''None'' \<or> s = ''NONE'')
      | RArray (Numeric xs) \<Rightarrow> if length xs > 1 then Inl ValueError else Inr False
      | RArray (NonNumeric n) \<Rightarrow> if n > 1 then Inl ValueError else Inr False
      | _ \<Rightarrow> Inr False)"

text \<open>The first half of \<open>compute_petco2hrf\<close>: the demeaned PetCO2 trace. Indexing a
  zero-dimensional array with the peaks raises \<open>IndexError\<close>.\<close>

definition petco2_trace ::
  "ndarray \<Rightarrow> int list \<Rightarrow> string \<Rightarrow> bool \<Rightarrow> (error + ndarray) \<times> event list"
where
  "petco2_trace co2 pidx outprefix comp_endtidal =
     (if comp_endtidal then
        (case (if ndim co2 = 0 then Inl IndexError
               else endtidal_interpolation (flat co2) pidx) of
           Inl e \<Rightarrow> (Inl e, [])
         | Inr petco2 \<Rightarrow>
             (Inr (array1d (demean petco2)),
              [Plot (outprefix @ ''_co2_vs_petco2.png''),
               SaveTxt (outprefix @ ''_petco2.1D'')]))
      else
        (Inr (NDArray (shape co2) (demean (flat co2))),
         [Log INFO (''Skipping End Tidal interpolation of PetCO2 trace (if you provided raw CO2 ''
                    @ ''data, then you probably should not be doing this)'')]))"

definition compute_petco2hrf ::
  "env \<Rightarrow> ndarray \<Rightarrow> int list \<Rightarrow> real \<Rightarrow> string \<Rightarrow> bool \<Rightarrow> response_function \<Rightarrow> conv_mode
     \<Rightarrow> (error + ndarray) \<times> event list"
where
  "compute_petco2hrf E co2 pidx freq outprefix comp_endtidal response_function mode =
     (let co2 = squeeze co2
      in if ndim co2 > 1 then (Inl NotImplementedError, [])
         else
           (case petco2_trace co2 pidx outprefix comp_endtidal of
              (Inl e, evs) \<Rightarrow> (Inl e, evs)
            | (Inr petco2, evs) \<Rightarrow>
                (case skips_convolution response_function of
                   Inl e \<Rightarrow> (Inl e, evs)
                 | Inr True \<Rightarrow>
                     (Inr petco2, evs @ [Log INFO ''Skipping convolution of PetCO2 trace''])
                 | Inr False \<Rightarrow>
                     (case convolve_signal E petco2 freq response_function mode of
                        (Inl e, evs') \<Rightarrow> (Inl e, evs @ evs')
                      | (Inr petco2hrf, evs') \<Rightarrow>
                          (Inr petco2hrf,
                           evs @ evs' @ [Plot (outprefix @ ''_petco2_vs_petco2hrf.png'')])))))"

subsection \<open>\<open>compute_bulk_shift\<close>\<close>

text \<open>Python truthiness of an optional number: \<open>None\<close> and zero are false.\<close>

definition truthy :: "'a::zero option \<Rightarrow> bool" where
  "truthy x = (case x of None \<Rightarrow> False | Some v \<Rightarrow> v \<noteq> 0)"

text \<open>
  The trial-aware windowing at the head of \<open>compute_bulk_shift\<close>: the first matched
  timepoint \<open>first_tp\<close>, the number of shifts \<open>n_shifts\<close> handed to the cross-correlation
  (\<open>None\<close>: unrestricted), and the log records.
\<close>

definition trial_window ::
  "real \<Rightarrow> real option \<Rightarrow> int option \<Rightarrow> (int \<times> int option) \<times> event list"
where
  "trial_window freq trial_len n_trials =
     (if truthy trial_len \<and> truthy n_trials then
        (let tl = the trial_len; nt = the n_trials;
             first_tp = (if nt > 3 then py_int (tl * freq) else 0);
             n_shifts = (if nt > 4 then Some (first_tp * (nt - 2)) else None)
         in ((first_tp, n_shifts),
             [Log INFO ''Specified {n_trials} trials lasting {trial_len} seconds'']
             @ (if nt > 3
                then [Log INFO ''Ignoring first trial to improve bulk shift estimation'']
                else [Log INFO ''Using all trials for bulk shift estimation''])
             @ (if nt > 4
                then [Log INFO ''Ignoring last trial to improve bulk shift estimation'']
                else [])))
      else if truthy trial_len \<and> \<not> truthy n_trials then
        ((0, None),
         [Log WARNING (''The length of trial was specified, but the number of ''
            @ ''trials was not. Using all available trials for bulk shift estimation'')])
      else if \<not> truthy trial_len \<and> truthy n_trials then
        ((0, None),
         [Log WARNING (''The number of trials was specified, but the length of ''
            @ ''trial was not. Using all available trials for bulk shift estimation'')])
      else ((0, None), [Log INFO ''Using all trials for bulk shift estimation.'']))"

text \<open>
  The cross-correlation primitive \<open>x_corr\<close> of module \<open>stats\<close> is a parameter: called with
  the cut functional signal, the regressor, \<open>n_shifts\<close>, the offset and \<open>abs_xcorr\<close>, it
  returns the peak correlation, the optimal shift and the correlation curve, or raises.
\<close>

type_synonym x_corr =
  "real list \<Rightarrow> real list \<Rightarrow> int option \<Rightarrow> int \<Rightarrow> bool \<Rightarrow> error + (real \<times> int \<times> real list)"

text \<open>\<open>optshift / freq\<close>, formatted into the log record, is a Python division.\<close>

definition compute_bulk_shift ::
  "x_corr \<Rightarrow> real list \<Rightarrow> real list \<Rightarrow> real \<Rightarrow> string \<Rightarrow> real option \<Rightarrow> int option \<Rightarrow> bool
     \<Rightarrow> (error + int) \<times> event list"
where
  "compute_bulk_shift xc func_upsampled petco2hrf freq outprefix trial_len n_trials abs_xcorr =
     (case trial_window freq trial_len n_trials of
        ((first_tp, n_shifts), evs) \<Rightarrow>
          (let func_cut = py_slice_from func_upsampled first_tp
           in case xc func_cut petco2hrf n_shifts first_tp abs_xcorr of
                Inl e \<Rightarrow> (Inl e, evs)
              | Inr (c, optshift, xcorr) \<Rightarrow>
                  if freq = 0 then (Inl ZeroDivisionError, evs)
                  else
                    (let evs' = evs @
                           [Log INFO ''Cross correlation estimated a bulk shift of {optshift / freq} seconds'',
                            SaveTxt (outprefix @ ''_optshift.1D''),
                            Plot outprefix]
                     in if optshift + int (length func_upsampled) > int (length petco2hrf)
                        then (Inl PyException, evs')
                        else (Inr optshift, evs'))))"

subsection \<open>\<open>create_fine_shift_regressors\<close>\<close>

text \<open>Regressors handed to and returned by the export collaborator: a single trace or a
  bank of rows.\<close>

datatype regressor = Single "real list" | Bank "real list list"

text \<open>
  \<open>export_regressor\<close> of module \<open>io\<close> is a parameter of the functions below: called with
  the regressor, the target sample count, the output prefix, the suffix and the extension.
\<close>

type_synonym exporter =
  "regressor \<Rightarrow> nat \<Rightarrow> string \<Rightarrow> string \<Rightarrow> string \<Rightarrow> error + regressor"

text \<open>\<open>np.pad(x, (lpad, rpad), 'mean')\<close>: both sides are filled with the mean of \<open>x\<close>; an
  empty array cannot be extended in this mode.\<close>

definition np_pad_mean :: "real list \<Rightarrow> nat \<Rightarrow> nat \<Rightarrow> error + real list" where
  "np_pad_mean xs lpad rpad =
     (if xs = [] \<and> (lpad > 0 \<or> rpad > 0) then Inl ValueError
      else Inr (replicate lpad (np_mean xs) @ xs @ replicate rpad (np_mean xs)))"

text \<open>\<open>sliding_window_view(x, w)\<close>: every window of \<open>w\<close> consecutive samples.\<close>

definition swv :: "real list \<Rightarrow> nat \<Rightarrow> error + real list list" where
  "swv xs w =
     (if w > length xs then Inl ValueError
      else Inr (map (\<lambda>i. take w (drop i xs)) [0..<length xs - w + 1]))"

definition create_fine_shift_regressors ::
  "exporter \<Rightarrow> real list \<Rightarrow> int \<Rightarrow> real \<Rightarrow> real option \<Rightarrow> real \<Rightarrow> nat \<Rightarrow> nat \<Rightarrow> string \<Rightarrow> string
     \<Rightarrow> bool \<Rightarrow> (error + regressor) \<times> event list"
where
  "create_fine_shift_regressors export petco2hrf optshift lag_max lag_min freq func_size
       func_upsamp_size outprefix ext legacy =
     (case os_path_split outprefix of
        (outdir, base) \<Rightarrow>
          (let regr_dir = os_path_join outdir ''regr'';
               outprefix = os_path_join regr_dir base;
               evs = [MakeDirs regr_dir]
           in case lag_min of
                None \<Rightarrow> (Inl TypeError, evs)
              | Some lag_min \<Rightarrow>
                  (let neg_shifts = py_int (\<bar>lag_min\<bar> * freq);
                       pos_shifts = (if legacy then py_int (lag_max * freq)
                                     else py_int (lag_max * freq) + 1);
                       rpad = max 0 (int func_upsamp_size + optshift + pos_shifts
                                      - int (length petco2hrf));
                       lpad = max 0 (neg_shifts - optshift);
                       evs = evs @ [Print ''lpad'' lpad, Print ''rpad'' rpad]
                   in case np_pad_mean petco2hrf (nat lpad) (nat rpad) of
                        Inl e \<Rightarrow> (Inl e, evs)
                      | Inr petco2hrf \<Rightarrow>
                          (let neg_idx = optshift - pos_shifts + lpad - 1;
                               pos_idx = optshift + neg_shifts + lpad - 1
                           in case swv petco2hrf func_upsamp_size of
                                Inl e \<Rightarrow> (Inl e, evs)
                              | Inr windows \<Rightarrow>
                                  (export (Bank (py_slice_rev windows pos_idx neg_idx))
                                     func_size outprefix ''shifts'' ext, evs)))))"

subsection \<open>\<open>create_physio_regressor\<close>\<close>

text \<open>The lag-bank stage at the end of \<open>create_physio_regressor\<close>.\<close>

definition lag_stage ::
  "exporter \<Rightarrow> real list \<Rightarrow> int \<Rightarrow> real option \<Rightarrow> real option \<Rightarrow> real \<Rightarrow> nat \<Rightarrow> nat \<Rightarrow> string
     \<Rightarrow> string \<Rightarrow> bool \<Rightarrow> bool \<Rightarrow> (error + regressor option) \<times> event list"
where
  "lag_stage export petco2hrf optshift lag_max lag_min freq func_size func_upsamp_size
       outprefix ext lagged_regression legacy =
     (if lagged_regression \<and> truthy lag_max then
        (case create_fine_shift_regressors export petco2hrf optshift (the lag_max) lag_min
                freq func_size func_upsamp_size outprefix ext legacy of
           (Inl e, evs) \<Rightarrow> (Inl e, evs)
         | (Inr lagged, evs) \<Rightarrow> (Inr (Some lagged), evs))
      else if lagged_regression \<and> \<not> truthy lag_max then
        (Inr None,
         [Log WARNING ''Lagged regressors requested but maximum lag not provided. Skipping.''])
      else (Inr None, [Log INFO ''Skipping generation of lagged regressors.'']))"

text \<open>
  The body of \<open>create_physio_regressor\<close> up to the export of the single regressor: the
  functional signal is upsampled, the bulk shift is searched (or fixed), the regressor is
  sliced at the bulk shift and exported. It yields the bulk shift, the upsampled sample
  count and the exported regressor.
\<close>

definition physio_front ::
  "x_corr \<Rightarrow> exporter \<Rightarrow> real list \<Rightarrow> real list \<Rightarrow> real \<Rightarrow> real \<Rightarrow> string \<Rightarrow> real option
     \<Rightarrow> int option \<Rightarrow> string \<Rightarrow> bool \<Rightarrow> bool
     \<Rightarrow> (error + int \<times> nat \<times> regressor) \<times> event list"
where
  "physio_front xc export func_avg petco2hrf tr freq outprefix trial_len n_trials ext
       abs_xcorr skip_xcorr =
     (if tr = 0 then (Inl ZeroDivisionError, [])
      else
        (case resample_signal_freqs func_avg (1 / tr) freq of
           Inl e \<Rightarrow> (Inl e, [])
         | Inr func_upsampled \<Rightarrow>
             (case (if skip_xcorr then (Inr 0, [Log INFO ''Skipping Bulk Shift Computation''])
                    else compute_bulk_shift xc func_upsampled petco2hrf freq outprefix
                           trial_len n_trials abs_xcorr) of
                (Inl e, evs) \<Rightarrow> (Inl e, evs)
              | (Inr optshift, evs) \<Rightarrow>
                  (let petco2hrf_shift =
                         py_slice petco2hrf optshift (optshift + int (length func_upsampled));
                       evs = evs @ [Plot (outprefix @ ''_petco2hrf_vs_avgroi.png'')]
                   in case export (Single petco2hrf_shift) (length func_avg) outprefix
                             ''petco2hrf_simple'' ext of
                        Inl e \<Rightarrow> (Inl e, evs)
                      | Inr petco2hrf_demean \<Rightarrow>
                          (Inr (optshift, length func_upsampled, petco2hrf_demean), evs)))))"

definition create_physio_regressor ::
  "x_corr \<Rightarrow> exporter \<Rightarrow> real list \<Rightarrow> real list \<Rightarrow> real \<Rightarrow> real \<Rightarrow> string \<Rightarrow> real option
     \<Rightarrow> real option \<Rightarrow> real option \<Rightarrow> int option \<Rightarrow> string \<Rightarrow> bool \<Rightarrow> bool \<Rightarrow> bool \<Rightarrow> bool
     \<Rightarrow> (error + regressor \<times> regressor option) \<times> event list"
where
  "create_physio_regressor xc export func_avg petco2hrf tr freq outprefix lag_max lag_min
       trial_len n_trials ext lagged_regression legacy abs_xcorr skip_xcorr =
     (case physio_front xc export func_avg petco2hrf tr freq outprefix trial_len n_trials ext
             abs_xcorr skip_xcorr of
        (Inl e, evs) \<Rightarrow> (Inl e, evs)
      | (Inr (optshift, func_upsamp_size, petco2hrf_demean), evs) \<Rightarrow>
          (case lag_stage export petco2hrf optshift lag_max lag_min freq (length func_avg)
                  func_upsamp_size outprefix ext lagged_regression legacy of
             (Inl e, evs') \<Rightarrow> (Inl e, evs @ evs')
           | (Inr petco2hrf_lagged, evs') \<Rightarrow>
               (Inr (petco2hrf_demean, petco2hrf_lagged), evs @ evs')))"

subsection \<open>The export collaborator\<close>

text \<open>
  Modelled from the spec: \<open>export_regressor\<close> of module \<open>io\<close>, which is not among the
  sources. The spec gives its contract: it "demeans and persists a regressor array,
  resampling to \<open>target_sample_count\<close> if needed", and returns the demeaned values. A row
  is resampled with \<open>resample_signal_samples\<close> when its length differs from the target
  count, then demeaned; a bank is exported row by row.
\<close>

definition export_row :: "real list \<Rightarrow> nat \<Rightarrow> error + real list" where
  "export_row row ntp =
     (if length row = ntp then Inr (demean row)
      else map_sum id demean (resample_signal_samples row (int ntp)))"

fun export_rows :: "real list list \<Rightarrow> nat \<Rightarrow> error + real list list" where
  "export_rows [] ntp = Inr []"
| "export_rows (r # rs) ntp =
     (case export_row r ntp of
        Inl e \<Rightarrow> Inl e
      | Inr r' \<Rightarrow> (case export_rows rs ntp of Inl e \<Rightarrow> Inl e | Inr rs' \<Rightarrow> Inr (r' # rs')))"

fun export_regressor :: exporter where
  "export_regressor (Single xs) ntp outname suffix ext = map_sum id Single (export_row xs ntp)"
| "export_regressor (Bank rows) ntp outname suffix ext = map_sum id Bank (export_rows rows ntp)"

section \<open>Verified properties\<close>

subsection \<open>Resampler: sample count\<close>




lemma interp1d_ok:
  "length x = length y \<Longrightarrow> 2 \<le> length x \<Longrightarrow> \<exists>ys. interp1d x y x_new = Inr ys"
  by (auto simp: interp1d_def Let_def)




subsection \<open>Envelope interpolator: the peaks are reproduced\<close>

lemma np_index_in_range:
  "0 \<le> i \<Longrightarrow> i < int (length xs) \<Longrightarrow> np_index xs i = Inr (xs ! nat i)"
  by (simp add: np_index_def)

lemma np_take_in_range:
  "\<forall>i\<in>set is. 0 \<le> i \<and> i < int (length xs) \<Longrightarrow>
     np_take xs is = Inr (map (\<lambda>i. xs ! nat i) is)"
  by (induction "is") (simp_all add: np_index_in_range)

lemma np_unique_props:
  "sorted (np_unique ps)" "distinct (np_unique ps)" "set (np_unique ps) = set ps"
  by (simp_all add: np_unique_def)

lemma sort_np_unique: "sort (np_unique ps) = np_unique ps"
  by (simp add: np_unique_def sorted_sort_id)





lemma np_unique_length2:
  assumes "p \<in> set ps" "q \<in> set ps" "p \<noteq> q"
  shows "2 \<le> length (np_unique ps)"
proof -
  have "card {p, q} \<le> card (set ps)"
    using assms by (intro card_mono) auto
  moreover have "card {p, q} = 2" using assms(3) by simp
  moreover have "length (np_unique ps) = card (set ps)"
    using np_unique_props(2,3) [of ps] distinct_card by metis
  ultimately show ?thesis by simp
qed



subsection \<open>Lag estimator: trial-aware windowing\<close>

text \<open>
  Claim C4. In \<open>compute_bulk_shift\<close>, when both \<open>trial_len\<close> and \<open>n_trials\<close> are supplied
  (given and non-zero, as the code tests them), matching starts at
  \<open>int(trial_len * freq)\<close> if \<open>n_trials > 3\<close> and at 0 otherwise, and the search range is
  restricted (to \<open>first_tp * (n_trials - 2)\<close> shifts) exactly when \<open>n_trials > 4\<close>; when
  only one of the two is supplied a single warning is logged and the entire signal is
  used (\<open>first_tp = 0\<close>, unrestricted range); when neither is supplied the entire signal is
  used and no warning is logged.
\<close>

theorem trial_window_policy:
  fixes freq :: real and trial_len :: "real option" and n_trials :: "int option"
  shows "(let w = trial_window freq trial_len n_trials in
          (truthy trial_len \<and> truthy n_trials \<longrightarrow>
            fst (fst w) = (if the n_trials > 3 then py_int (the trial_len * freq) else 0) \<and>
            (snd (fst w) \<noteq> None \<longleftrightarrow> the n_trials > 4) \<and>
            (the n_trials > 4 \<longrightarrow>
               snd (fst w) = Some (py_int (the trial_len * freq) * (the n_trials - 2))) \<and>
            (\<forall>m. Log WARNING m \<notin> set (snd w)))
       \<and> (truthy trial_len \<noteq> truthy n_trials \<longrightarrow>
            fst w = (0, None) \<and> (\<exists>m. snd w = [Log WARNING m]))
       \<and> (\<not> truthy trial_len \<and> \<not> truthy n_trials \<longrightarrow>
            fst w = (0, None) \<and> (\<forall>m. Log WARNING m \<notin> set (snd w))))"
  unfolding trial_window_def by (auto simp: Let_def)

theorem trial_window_policy_witness:
  "fst (trial_window 40 (Some 30) (Some 5)) = (1200, Some 3600)
   \<and> fst (trial_window 40 (Some 30) (Some 4)) = (1200, None)
   \<and> fst (trial_window 40 (Some 30) (Some 3)) = (0, None)
   \<and> fst (trial_window 40 (Some 30) None) = (0, None)
   \<and> (\<exists>m. snd (trial_window 40 (Some 30) None) = [Log WARNING m])
   \<and> (\<exists>m. snd (trial_window 40 None (Some 5)) = [Log WARNING m])
   \<and> fst (trial_window 40 None None) = (0, None)"
  using trial_window_policy [where freq = 40 and trial_len = "Some 30" and n_trials = "Some 5"]
    trial_window_policy [where freq = 40 and trial_len = "Some 30" and n_trials = "Some 4"]
    trial_window_policy [where freq = 40 and trial_len = "Some 30" and n_trials = "Some 3"]
    trial_window_policy [where freq = 40 and trial_len = "Some 30" and n_trials = "None"]
    trial_window_policy [where freq = 40 and trial_len = "None" and n_trials = "Some 5"]
    trial_window_policy [where freq = 40 and trial_len = "None" and n_trials = "None"]
  by (simp add: truthy_def py_int_def prod_eq_iff Let_def)

text \<open>With only one of the two supplied, \<open>compute_bulk_shift\<close> yields what it yields with
  neither: the whole signal is matched over the unrestricted range.\<close>

lemma compute_bulk_shift_one_supplied:
  fixes trial_len :: "real option" and n_trials :: "int option"
  assumes "truthy trial_len \<noteq> truthy n_trials"
  shows "fst (compute_bulk_shift xc func_upsampled petco2hrf freq outprefix trial_len n_trials
                abs_xcorr)
         = fst (compute_bulk_shift xc func_upsampled petco2hrf freq outprefix None None
                  abs_xcorr)"
  using assms
  by (auto simp: compute_bulk_shift_def trial_window_def truthy_def Let_def
      split: sum.splits prod.splits)

subsection \<open>Lag estimator: alignment overflow\<close>

text \<open>
  Claim C3. Once the cross-correlation has returned a shift (and the frequency is not
  zero), \<open>compute_bulk_shift\<close> raises if and only if the shift plus the length of the
  upsampled functional signal exceeds the regressor's length; it then raises its
  exception and returns no value, and otherwise it returns the shift.
\<close>

theorem compute_bulk_shift_overflow:
  assumes "trial_window freq trial_len n_trials = ((first_tp, n_shifts), evs)"
    and "xc (py_slice_from func_upsampled first_tp) petco2hrf n_shifts first_tp abs_xcorr
           = Inr (c, optshift, xcorr)"
    and "freq \<noteq> 0"
  shows "(let r = fst (compute_bulk_shift xc func_upsampled petco2hrf freq outprefix
                         trial_len n_trials abs_xcorr) in
          ((\<exists>e. r = Inl e) \<longleftrightarrow>
            optshift + int (length func_upsampled) > int (length petco2hrf))
       \<and> (optshift + int (length func_upsampled) > int (length petco2hrf) \<longrightarrow>
            r = Inl PyException)
       \<and> (\<not> optshift + int (length func_upsampled) > int (length petco2hrf) \<longrightarrow>
            r = Inr optshift))"
  unfolding compute_bulk_shift_def using assms by (simp add: Let_def)

theorem compute_bulk_shift_overflow_witness:
  "fst (compute_bulk_shift (\<lambda>f p n off a. Inr (1, 4, [])) [1, 2, 3] [1, 2, 3, 4, 5] 40
          ''out'' None None False) = Inl PyException
   \<and> fst (compute_bulk_shift (\<lambda>f p n off a. Inr (1, 2, [])) [1, 2, 3] [1, 2, 3, 4, 5] 40
          ''out'' None None False) = Inr 2"
proof -
  have w: "trial_window 40 None None
             = ((0, None), [Log INFO ''Using all trials for bulk shift estimation.''])"
    by (simp add: trial_window_def truthy_def)
  note over = compute_bulk_shift_overflow
    [where xc = "\<lambda>f p n off a. Inr (1, 4, [])" and func_upsampled = "[1, 2, 3]"
       and petco2hrf = "[1, 2, 3, 4, 5]" and freq = 40 and trial_len = None
       and n_trials = None and first_tp = 0 and n_shifts = None
       and evs = "[Log INFO ''Using all trials for bulk shift estimation.'']"
       and c = 1 and optshift = 4 and xcorr = "[]" and abs_xcorr = False
       and outprefix = "''out''"]
  note fits = compute_bulk_shift_overflow
    [where xc = "\<lambda>f p n off a. Inr (1, 2, [])" and func_upsampled = "[1, 2, 3]"
       and petco2hrf = "[1, 2, 3, 4, 5]" and freq = 40 and trial_len = None
       and n_trials = None and first_tp = 0 and n_shifts = None
       and evs = "[Log INFO ''Using all trials for bulk shift estimation.'']"
       and c = 1 and optshift = 2 and xcorr = "[]" and abs_xcorr = False
       and outprefix = "''out''"]
  show ?thesis using over fits w by (simp add: Let_def)
qed

text \<open>The estimated shift is written out and the correlation curve is plotted before the
  check, so both effects also happen when the check fails.\<close>

lemma compute_bulk_shift_effects_precede_check:
  assumes "trial_window freq trial_len n_trials = ((first_tp, n_shifts), evs)"
    and "xc (py_slice_from func_upsampled first_tp) petco2hrf n_shifts first_tp abs_xcorr
           = Inr (c, optshift, xcorr)"
    and "freq \<noteq> 0"
  shows "SaveTxt (outprefix @ ''_optshift.1D'')
           \<in> set (snd (compute_bulk_shift xc func_upsampled petco2hrf freq outprefix
                          trial_len n_trials abs_xcorr))"
  unfolding compute_bulk_shift_def using assms by (simp add: Let_def)


subsection \<open>Shape guard of the response convolver\<close>

lemma squeeze_singletons:
  "squeeze (NDArray [1, 3, 1] xs) = NDArray [3] xs"
  by (simp add: squeeze_def)

lemma compute_petco2hrf_shape_guard:
  "ndim (squeeze co2) > 1 \<Longrightarrow>
     compute_petco2hrf E co2 pidx freq outprefix comp_endtidal rf mode
       = (Inl NotImplementedError, [])"
  by (simp add: compute_petco2hrf_def Let_def)

lemma convolve_signal_shape_guard:
  "fst (convolve_signal E signal freq rf mode) = Inl NotImplementedError"
  if "ndim (squeeze signal) > 2"
  using that by (simp add: convolve_signal_def Let_def)

lemma convolve_signal_two_dimensions_pass:
  "ndim (squeeze signal) = 2 \<Longrightarrow>
     fst (convolve_signal E signal freq RNone mode) = Inr (squeeze signal)"
  by (simp add: convolve_signal_def Let_def normalise_response_def resolve_kernel_def)

text \<open>
  Claim C6. A signal with two dimensions after squeezing (here a 2 x 3 array) is rejected
  by \<open>compute_petco2hrf\<close> with \<open>NotImplementedError\<close>, but \<open>convolve_signal\<close>, whose guard
  reads \<open>ndim > 2\<close>, lets it through: with no kernel it returns the two-dimensional array
  unchanged, and with a numeric kernel the error is the \<open>ValueError\<close> of \<open>np.convolve\<close>.
\<close>

theorem convolve_signal_accepts_two_dimensions:
  "ndim (squeeze (NDArray [2, 3] [1, 2, 3, 4, 5, 6])) = 2
   \<and> fst (compute_petco2hrf E (NDArray [2, 3] [1, 2, 3, 4, 5, 6]) pidx freq outprefix
            comp_endtidal rf mode) = Inl NotImplementedError
   \<and> fst (convolve_signal E (NDArray [2, 3] [1, 2, 3, 4, 5, 6]) freq RNone mode)
        = Inr (NDArray [2, 3] [1, 2, 3, 4, 5, 6])
   \<and> fst (convolve_signal E (NDArray [2, 3] [1, 2, 3, 4, 5, 6]) freq
            (RList (Numeric [1, 1])) mode) = Inl ValueError"
  by (simp add: compute_petco2hrf_def convolve_signal_def squeeze_def ndim_def
      normalise_response_def resolve_kernel_def np_convolve_def)

subsection \<open>Lag bank generator without a lower lag bound\<close>

lemma create_fine_shift_regressors_no_lag_min:
  "fst (create_fine_shift_regressors export petco2hrf optshift lag_max None freq func_size
          func_upsamp_size outprefix ext legacy) = Inl TypeError"
  by (simp add: create_fine_shift_regressors_def Let_def split: prod.splits)

text \<open>
  Claim C7. With lagged regression requested, \<open>lag_max = 9\<close> and \<open>lag_min\<close> left at its
  default \<open>None\<close>, \<open>create_physio_regressor\<close> does not build the bank for
  \<open>lag_min = -lag_max\<close>: \<open>abs(lag_min)\<close> raises \<open>TypeError\<close>.
\<close>

theorem create_physio_regressor_default_lag_min_raises:
  "fst (create_physio_regressor xc export_regressor [1, 2, 3] [1, 2, 3, 4, 5, 6, 7, 8, 9, 10]
          1 2 ''out/pre'' (Some 9) None None None ''.1D'' True False False True)
     = Inl TypeError"
  by code_simp

subsection \<open>Flag policy of the orchestrator\<close>

lemma py_slice_from_zero: "py_slice xs 0 (int n) = take n xs"
  by (simp add: py_slice_def slice_bound_def min_def)

lemma lag_stage_no_lag_max:
  "\<not> truthy lag_max \<Longrightarrow>
     lag_stage export petco2hrf optshift lag_max lag_min freq func_size func_upsamp_size
       outprefix ext True legacy
     = (Inr None,
        [Log WARNING ''Lagged regressors requested but maximum lag not provided. Skipping.''])"
  by (simp add: lag_stage_def)

text \<open>
  Claim C8. In \<open>create_physio_regressor\<close>, if lagged regression is requested but
  \<open>lag_max\<close> is not given, then whenever the stages before the lag bank have succeeded the
  call returns the exported regressor with no lag bank (\<open>None\<close>), after logging one more
  record, a warning; and if \<open>skip_xcorr\<close> is set, the bulk shift is 0, the
  cross-correlation is not consulted, and the regressor handed to the export is the
  slice of the regressor from index 0 over the upsampled functional length.
\<close>

theorem create_physio_regressor_flag_policy:
  "(physio_front xc export func_avg petco2hrf tr freq outprefix trial_len n_trials ext
      abs_xcorr skip_xcorr = (Inr (optshift, n_up, demeaned), evs) \<longrightarrow>
    \<not> truthy lag_max \<longrightarrow>
      create_physio_regressor xc export func_avg petco2hrf tr freq outprefix lag_max lag_min
        trial_len n_trials ext True legacy abs_xcorr skip_xcorr
      = (Inr (demeaned, None),
         evs @ [Log WARNING
                  ''Lagged regressors requested but maximum lag not provided. Skipping.'']))
   \<and> (tr \<noteq> 0 \<longrightarrow> resample_signal_freqs func_avg (1 / tr) freq = Inr func_upsampled \<longrightarrow>
        physio_front xc export func_avg petco2hrf tr freq outprefix trial_len n_trials ext
          abs_xcorr True
        = (map_sum id (\<lambda>d. (0, length func_upsampled, d))
             (export (Single (take (length func_upsampled) petco2hrf)) (length func_avg)
                outprefix ''petco2hrf_simple'' ext),
           [Log INFO ''Skipping Bulk Shift Computation'',
            Plot (outprefix @ ''_petco2hrf_vs_avgroi.png'')]))"
proof (intro conjI impI)
  assume "physio_front xc export func_avg petco2hrf tr freq outprefix trial_len n_trials ext
      abs_xcorr skip_xcorr = (Inr (optshift, n_up, demeaned), evs)"
    and "\<not> truthy lag_max"
  then show "create_physio_regressor xc export func_avg petco2hrf tr freq outprefix lag_max
        lag_min trial_len n_trials ext True legacy abs_xcorr skip_xcorr
      = (Inr (demeaned, None),
         evs @ [Log WARNING
                  ''Lagged regressors requested but maximum lag not provided. Skipping.''])"
    by (simp add: create_physio_regressor_def lag_stage_no_lag_max)
next
  assume "tr \<noteq> 0" and "resample_signal_freqs func_avg (1 / tr) freq = Inr func_upsampled"
  then show "physio_front xc export func_avg petco2hrf tr freq outprefix trial_len n_trials
          ext abs_xcorr True
        = (map_sum id (\<lambda>d. (0, length func_upsampled, d))
             (export (Single (take (length func_upsampled) petco2hrf)) (length func_avg)
                outprefix ''petco2hrf_simple'' ext),
           [Log INFO ''Skipping Bulk Shift Computation'',
            Plot (outprefix @ ''_petco2hrf_vs_avgroi.png'')])"
    by (simp add: physio_front_def Let_def py_slice_from_zero split: sum.splits)
qed

lemma resample_three_samples: "resample_signal_freqs [1, 2, 3] (1 / 1) 2 = Inr [1, 3/2, 2, 5/2, 3]"
  by code_simp

lemma export_five_samples:
  "export_regressor (Single (take (length [1, 3/2, 2, 5/2, 3::real]) [1, 2, 3, 4, 5, 6, 7, 8, 9, 10]))
     (length [1, 2, 3::real]) ''out/pre'' ''petco2hrf_simple'' ''.1D'' = Inr (Single [- 2, 0, 2])"
  by code_simp

theorem create_physio_regressor_flag_policy_witness:
  "create_physio_regressor (\<lambda>f p n off a. Inl ValueError) export_regressor [1, 2, 3]
     [1, 2, 3, 4, 5, 6, 7, 8, 9, 10] 1 2 ''out/pre'' None None None None ''.1D'' True False
     False True
   = (Inr (Single [- 2, 0, 2], None),
      [Log INFO ''Skipping Bulk Shift Computation'',
       Plot ''out/pre_petco2hrf_vs_avgroi.png'',
       Log WARNING ''Lagged regressors requested but maximum lag not provided. Skipping.''])"
proof -
  note pol = create_physio_regressor_flag_policy
    [where xc = "\<lambda>f p n off a. Inl ValueError" and export = export_regressor
       and func_avg = "[1, 2, 3]" and petco2hrf = "[1, 2, 3, 4, 5, 6, 7, 8, 9, 10]"
       and tr = 1 and freq = 2 and outprefix = "''out/pre''" and trial_len = None
       and n_trials = None and ext = "''.1D''" and abs_xcorr = False and skip_xcorr = True
       and lag_max = None and lag_min = None and legacy = False
       and func_upsampled = "[1, 3/2, 2, 5/2, 3]" and optshift = 0 and n_up = 5
       and demeaned = "Single [- 2, 0, 2]"
       and evs = "[Log INFO ''Skipping Bulk Shift Computation'',
                   Plot ''out/pre_petco2hrf_vs_avgroi.png'']"]
  have front: "physio_front (\<lambda>f p n off a. Inl ValueError) export_regressor [1, 2, 3]
      [1, 2, 3, 4, 5, 6, 7, 8, 9, 10] 1 2 ''out/pre'' None None ''.1D'' False True
    = (Inr (0, 5, Single [- 2, 0, 2]),
       [Log INFO ''Skipping Bulk Shift Computation'', Plot ''out/pre_petco2hrf_vs_avgroi.png''])"
    using pol [THEN conjunct2] resample_three_samples export_five_samples by simp
  show ?thesis
    using pol [THEN conjunct1] front by (simp add: truthy_def)
qed

subsection \<open>The default kernel of \<open>compute_petco2hrf\<close>\<close>

lemma endtidal_interpolation_returns:
  assumes "\<forall>p\<in>set peaks. 0 \<le> p \<and> p < int (length signal)"
    and "\<exists>p\<in>set peaks. \<exists>q\<in>set peaks. p \<noteq> q"
  shows "\<exists>ys. endtidal_interpolation signal peaks = Inr ys"
proof -
  let ?ps = "np_unique peaks"
  have "np_take signal ?ps = Inr (map (\<lambda>i. signal ! nat i) ?ps)"
    using assms(1) by (intro np_take_in_range) (simp add: np_unique_props)
  moreover have "2 \<le> length ?ps"
    using assms(2) np_unique_length2 by blast
  ultimately show ?thesis
    using interp1d_ok [of "map real_of_int ?ps" "map (\<lambda>i. signal ! nat i) ?ps"]
    by (simp add: endtidal_interpolation_def Let_def sort_np_unique)
qed

lemma resolve_default_kernel:
  "\<not> path_exists E ''hfr'' \<Longrightarrow>
     resolve_kernel E (normalise_response E default_response_function) freq
       = Inl NotImplementedError"
  by (simp add: default_response_function_def normalise_response_def resolve_kernel_def
      lower_def lower_char_def)

lemma convolve_signal_default_kernel:
  "\<not> path_exists E ''hfr'' \<Longrightarrow>
     fst (convolve_signal E signal freq default_response_function mode)
       = Inl NotImplementedError"
  by (simp add: convolve_signal_def Let_def resolve_default_kernel)

lemma skips_convolution_default: "skips_convolution default_response_function = Inr False"
  by (simp add: skips_convolution_def default_response_function_def)

lemma compute_petco2hrf_default_never_returns:
  assumes "\<not> path_exists E ''hfr''"
  shows "fst (compute_petco2hrf E co2 pidx freq outprefix comp_endtidal
                default_response_function mode) \<noteq> Inr r"
proof -
  have "convolve_signal E p freq default_response_function mode \<noteq> (Inr r', evs)"
    for p r' evs
    using convolve_signal_default_kernel [OF assms, of p freq mode] by auto
  then show ?thesis
    by (auto simp: compute_petco2hrf_def Let_def skips_convolution_default
        split: prod.splits sum.splits)
qed


text \<open>
  Claim C10. For a one-dimensional CO2 trace, called without \<open>response_function\<close> (that
  is, with the default \<open>'hfr'\<close> of the signature) where no file of that name exists,
  \<open>compute_petco2hrf\<close> raises \<open>NotImplementedError\<close> instead of convolving: with the
  end-tidal interpolation skipped for any peaks, and with the interpolation for any
  peak indices that lie in the trace and include two distinct ones.
\<close>

theorem compute_petco2hrf_default_kernel_unsupported:
  assumes "\<not> path_exists E ''hfr''"
    and "shape co2 = [length (flat co2)]"
    and "comp_endtidal \<longrightarrow>
           (\<forall>p\<in>set pidx. 0 \<le> p \<and> p < int (length (flat co2))) \<and>
           (\<exists>p\<in>set pidx. \<exists>q\<in>set pidx. p \<noteq> q)"
  shows "fst (compute_petco2hrf E co2 pidx freq outprefix comp_endtidal
                default_response_function mode) = Inl NotImplementedError"
proof -
  have nd: "ndim (squeeze co2) \<le> 1"
    using assms(2) by (simp add: squeeze_def ndim_def)
  have fl: "flat (squeeze co2) = flat co2" by (simp add: squeeze_def)
  have "\<exists>p evs. petco2_trace (squeeze co2) pidx outprefix comp_endtidal = (Inr p, evs)"
  proof (cases comp_endtidal)
    case False
    then show ?thesis by (simp add: petco2_trace_def)
  next
    case True
    then obtain p q where pq: "p \<in> set pidx" "q \<in> set pidx" "p \<noteq> q"
      and rng: "\<forall>p\<in>set pidx. 0 \<le> p \<and> p < int (length (flat co2))"
      using assms(3) by blast
    have "2 \<le> length (flat co2)"
    proof -
      have "0 \<le> p \<and> p < int (length (flat co2))" "0 \<le> q \<and> q < int (length (flat co2))"
        using pq rng by blast+
      then have "nat p < length (flat co2)" "nat q < length (flat co2)" "nat p \<noteq> nat q"
        using pq(3) by auto
      then show ?thesis by linarith
    qed
    then have "ndim (squeeze co2) \<noteq> 0"
      using assms(2) by (simp add: squeeze_def ndim_def)
    moreover obtain ys where "endtidal_interpolation (flat co2) pidx = Inr ys"
      using endtidal_interpolation_returns [OF rng] pq by blast
    ultimately show ?thesis using True by (simp add: petco2_trace_def fl)
  qed
  then obtain p evs where
    tr: "petco2_trace (squeeze co2) pidx outprefix comp_endtidal = (Inr p, evs)" by blast
  obtain evs' where
    cv: "convolve_signal E p freq default_response_function mode = (Inl NotImplementedError, evs')"
    using convolve_signal_default_kernel [OF assms(1), of p freq mode]
    by (cases "convolve_signal E p freq default_response_function mode") simp
  show ?thesis
    using nd tr cv
    by (simp add: compute_petco2hrf_def Let_def skips_convolution_default)
qed

theorem compute_petco2hrf_default_kernel_unsupported_witness:
  "fst (compute_petco2hrf \<lparr>path_exists = (\<lambda>p. False), load_array = (\<lambda>p. Inl OSError),
                            phys2denoise = None\<rparr>
          (NDArray [6] [5, 1, 7, 3, 9, 2]) [4, 1, 1, 2] 40 ''out/pre'' True
          default_response_function Full) = Inl NotImplementedError"
proof -
  have t: "\<exists>p\<in>set [4, 1, 1, 2::int]. \<exists>q\<in>set [4, 1, 1, 2]. p \<noteq> q"
    by (rule bexI [of _ 4], rule bexI [of _ 1]) simp_all
  show ?thesis
    using compute_petco2hrf_default_kernel_unsupported
      [where E = "\<lparr>path_exists = (\<lambda>p. False), load_array = (\<lambda>p. Inl OSError),
                    phys2denoise = None\<rparr>"
         and ?co2.0 = "NDArray [6] [5, 1, 7, 3, 9, 2]" and pidx = "[4, 1, 1, 2]"
         and comp_endtidal = True and freq = 40 and outprefix = "''out/pre''" and mode = Full]
      t
    by simp
qed

subsection \<open>Lag bank generator: number and length of the rows\<close>











text \<open>
  Outside the amended claim: when the bulk shift does not exceed \<open>pos_shifts\<close> the stop
  index of the reversed slice is negative, and the bank is empty. Here the bulk shift is 0
  and three rows would be expected.
\<close>

lemma lag_bank_empty_at_zero_shift:
  "fst (create_fine_shift_regressors export_regressor [1, 2, 3, 4, 5, 6, 7, 8, 9, 10] 0 (3 / 2)
          (Some (- (3 / 2))) 1 2 3 ''out/pre'' ''.1D'' False) = Inr (Bank [])"
  by code_simp


subsection \<open>Canonical HRF\<close>














end
